theory Spec2Isabelle
  imports Complex_Main "HOL-Library.Char_ord" "HOL-Library.List_Lexorder"
begin

section \<open>Numbers, joints and the camera state\<close>

text \<open>
  The angle code works on numpy floats.  Rounding error of the binary format is not
  modelled: a float is a real number or the value nan.  Division by zero is the one place
  where numpy leaves the reals: it does not raise, it gives nan (0/0) or an infinity,
  with a warning.  Every comparison with nan is false.
\<close>

datatype py_error = KeyError

datatype npfloat = Num real | NaN

record joint =
  jx :: real
  jy :: real
  jz :: real

type_synonym vec3 = "real \<times> real \<times> real"

type_synonym skeleton = "string \<rightharpoonup> joint"

text \<open>\<open>RealsenseNew.__init__\<close>: the smoothing slots and the maximal jump per frame.\<close>

record cam =
  previous_angles :: "string \<rightharpoonup> npfloat"
  max_angle_jump :: real

definition init_cam :: cam where
  "init_cam = \<lparr>previous_angles = Map.empty, max_angle_jump = 10\<rparr>"

definition vec_of :: "joint \<Rightarrow> vec3" where
  "vec_of j = (jx j, jy j, jz j)"

fun vsub :: "vec3 \<Rightarrow> vec3 \<Rightarrow> vec3" where
  "vsub (a1, a2, a3) (b1, b2, b3) = (a1 - b1, a2 - b2, a3 - b3)"

fun dot :: "vec3 \<Rightarrow> vec3 \<Rightarrow> real" where
  "dot (a1, a2, a3) (b1, b2, b3) = a1 * b1 + a2 * b2 + a3 * b3"

definition norm3 :: "vec3 \<Rightarrow> real" where
  "norm3 v = sqrt (dot v v)"

text \<open>
  Lines 62 and 65 of \<open>calc_angle_3d\<close>: \<open>np.dot(ba, bc) / (norm(ba) * norm(bc))\<close> followed
  by \<open>np.clip(., -1.0, 1.0)\<close>.  A zero denominator gives nan for a zero numerator and an
  infinity otherwise, which the clip brings to the nearer bound; nan stays nan.
\<close>

definition cosine_angle :: "vec3 \<Rightarrow> vec3 \<Rightarrow> npfloat" where
  "cosine_angle ba bc =
     (let n = dot ba bc; d = norm3 ba * norm3 bc
      in if d = 0 then (if n = 0 then NaN else if 0 < n then Num 1 else Num (- 1))
         else Num (min 1 (max (- 1) (n / d))))"

text \<open>\<open>np.isclose(a, b, atol=1e-3)\<close> with the default \<open>rtol = 1e-5\<close>.\<close>

definition isclose :: "real \<Rightarrow> real \<Rightarrow> bool" where
  "isclose a b = (\<bar>a - b\<bar> \<le> 1 / 1000 + (1 / 100000) * \<bar>b\<bar>)"

text \<open>Lines 68 to 72: degrees of the arc cosine, moved by 0.1 near a straight alignment.\<close>

definition raw_angle :: "npfloat \<Rightarrow> npfloat" where
  "raw_angle c =
     (case c of
        NaN \<Rightarrow> NaN
      | Num v \<Rightarrow>
          (let angle = arccos v * 180 / pi
           in if isclose v (- 1) then Num (angle - 1 / 10) else Num angle))"

text \<open>
  \<open>round(angle, 2)\<close> on a numpy float: times 100, to the nearest integer with ties to the
  even one, divided by 100; nan stays nan.
\<close>

definition rint :: "real \<Rightarrow> int" where
  "rint v =
     (let f = \<lfloor>v\<rfloor>; d = v - of_int f
      in if d < 1 / 2 then f else if 1 / 2 < d then f + 1 else if even f then f else f + 1)"

definition round2 :: "real \<Rightarrow> real" where
  "round2 v = of_int (rint (v * 100)) / 100"

fun py_round2 :: "npfloat \<Rightarrow> npfloat" where
  "py_round2 (Num v) = Num (round2 v)"
| "py_round2 NaN = NaN"

text \<open>
  \<open>limit_angle_jump\<close>.  The read of the slot raises KeyError when the slot is empty.
  With nan on either side the comparison \<open>abs(angle - previous_angle) > max_angle_jump\<close> is
  false and the angle is returned as it came.
\<close>

definition limit_angle_jump :: "cam \<Rightarrow> npfloat \<Rightarrow> string \<Rightarrow> py_error + npfloat" where
  "limit_angle_jump c angle joint_name =
     (case previous_angles c joint_name of
        None \<Rightarrow> Inl KeyError
      | Some previous_angle \<Rightarrow>
          (case (angle, previous_angle) of
             (Num a, Num p) \<Rightarrow>
               if \<bar>a - p\<bar> > max_angle_jump c
               then (let direction = (if a > p then 1 else - 1)
                     in Inr (Num (p + direction * max_angle_jump c)))
               else Inr angle
           | _ \<Rightarrow> Inr angle))"

text \<open>
  \<open>calc_angle_3d\<close>.  The \<open>except\<close> branch returns None and leaves the slots as they
  were; no operation of the \<open>try\<close> block raises on float coordinates, the slot being read
  only when it is there.
\<close>

definition calc_angle_3d ::
  "cam \<Rightarrow> joint \<Rightarrow> joint \<Rightarrow> joint \<Rightarrow> string \<Rightarrow> npfloat option \<times> cam" where
  "calc_angle_3d c joint1 joint2 joint3 joint_name =
     (let a = vec_of joint1; b = vec_of joint2; c3 = vec_of joint3;
          ba = vsub a b; bc = vsub c3 b;
          angle = raw_angle (cosine_angle ba bc)
      in case (if previous_angles c joint_name \<noteq> None
               then limit_angle_jump c angle joint_name else Inr angle) of
           Inl e \<Rightarrow> (None, c)
         | Inr angle' \<Rightarrow>
             (Some (py_round2 angle'),
              c\<lparr>previous_angles := (previous_angles c)(joint_name \<mapsto> angle')\<rparr>))"

section \<open>The shared settings module\<close>

record ranges =
  right_max :: real
  right_min :: real
  left_max :: real
  left_min :: real

text \<open>
  The fields of \<open>Settings\<close> that the tracking and calibration code reads or writes.  An
  attribute that may be absent (\<open>hasattr\<close>) is an option.  The flags that only other
  threads write (\<open>stop_requested\<close>, \<open>did_training_paused\<close>) are inputs of each step.
\<close>

record settings =
  req_exercise :: string
  rep :: int
  number_of_repetitions_in_training :: int
  patient_repetitions_counting_in_exercise :: int
  success_exercise :: bool
  ex_list :: "string \<rightharpoonup> int"
  calibration_mode :: bool
  calibration_ranges :: ranges
  patient_calibrated :: "bool option"
  patient_rom :: "(string \<rightharpoonup> real) option"

section \<open>Adaptive ranges\<close>

text \<open>\<open>get_adaptive_range_for_joint\<close> of Patient_Calibration.py.\<close>

definition get_adaptive_range_for_joint ::
  "settings \<Rightarrow> string \<Rightarrow> real \<Rightarrow> real \<Rightarrow> real \<times> real" where
  "get_adaptive_range_for_joint s joint_combo default_min default_max =
     (if patient_calibrated s \<noteq> Some True then (default_min, default_max)
      else case patient_rom s of
        None \<Rightarrow> (default_min, default_max)
      | Some rom \<Rightarrow>
          if rom = Map.empty then (default_min, default_max)
          else (let max_key = joint_combo @ ''_Max''; min_key = joint_combo @ ''_Min''
                in case (rom max_key, rom min_key) of
                     (Some patient_max, Some patient_min) \<Rightarrow>
                       (let safety = 90 / 100;
                            range_span = patient_max - patient_min;
                            safe_max = patient_min + range_span * safety
                        in if patient_max < default_max then (patient_min, safe_max)
                           else (default_min, default_max))
                   | _ \<Rightarrow> (default_min, default_max)))"

text \<open>
  The values that main.py gives these fields before any thread starts.  main.py does not
  assign \<open>patient_repetitions_counting_in_exercise\<close>; it has the 0 that the entry point
  of Camera_realsense.py (line 550) and \<open>calibrate_one_exercise\<close> (line 111) give it.
\<close>

definition main_settings :: settings where
  "main_settings =
     \<lparr>req_exercise = '''', rep = 5,
      number_of_repetitions_in_training = 0,
      patient_repetitions_counting_in_exercise = 0,
      success_exercise = False, ex_list = Map.empty,
      calibration_mode = False,
      calibration_ranges = \<lparr>right_max = 0, right_min = 180, left_max = 0, left_min = 180\<rparr>,
      patient_calibrated = Some False, patient_rom = Some Map.empty\<rparr>"

section \<open>Exercise tracking\<close>

text \<open>The arguments of \<open>exercise_two_angles_3d\<close> after the exercise name.\<close>

record two_angles =
  joint1 :: string
  joint2 :: string
  joint3 :: string
  up_lb :: real
  up_ub :: real
  down_lb :: real
  down_ub :: real
  joint4 :: string
  joint5 :: string
  joint6 :: string
  up_lb2 :: real
  up_ub2 :: real
  down_lb2 :: real
  down_ub2 :: real
  use_alternate_angles :: bool
  left_right_differ :: bool

text \<open>
  What one pass of the outer \<open>while\<close> loop meets: a write of another thread to
  \<open>s.req_exercise\<close> before the loop condition is read (if any), whether the pause loop
  ran before the frame was fetched, and what \<open>get_skeleton_data\<close> returned (None on a
  timeout or a parse error).
\<close>

record tick =
  ext_req :: "string option"
  paused :: bool
  frame :: "skeleton option"

text \<open>The local variables of the loop and the settings module.\<close>

record run =
  flag :: bool
  counter :: int
  sett :: settings

datatype status = Success | Interrupted | Crashed py_error | Running

type_synonym angles = "npfloat option \<times> npfloat option \<times> npfloat option \<times> npfloat option"

text \<open>\<open>joints[key]\<close> raises KeyError for a joint that the frame does not hold.\<close>

definition lookup_joint :: "skeleton \<Rightarrow> string \<Rightarrow> py_error + joint" where
  "lookup_joint joints k = (case joints k of None \<Rightarrow> Inl KeyError | Some j \<Rightarrow> Inr j)"

text \<open>
  One call \<open>self.calc_angle_3d(joints[k1], joints[k2], joints[k3], slot)\<close>: the three
  reads come first, left to right, then the call.
\<close>

definition calc_at ::
  "cam \<Rightarrow> skeleton \<Rightarrow> string \<Rightarrow> string \<Rightarrow> string \<Rightarrow> string
     \<Rightarrow> py_error + (npfloat option \<times> cam)" where
  "calc_at c joints k1 k2 k3 slot =
     (case lookup_joint joints k1 of
        Inl e \<Rightarrow> Inl e
      | Inr j1 \<Rightarrow>
          (case lookup_joint joints k2 of
             Inl e \<Rightarrow> Inl e
           | Inr j2 \<Rightarrow>
               (case lookup_joint joints k3 of
                  Inl e \<Rightarrow> Inl e
                | Inr j3 \<Rightarrow> Inr (calc_angle_3d c j1 j2 j3 slot))))"

text \<open>
  Lines 178 to 192: the four angles of a frame.  An exception leaves the camera as the
  calls before it made it.
\<close>

definition measure_two_angles ::
  "two_angles \<Rightarrow> cam \<Rightarrow> skeleton \<Rightarrow> (py_error \<times> cam) + (angles \<times> cam)" where
  "measure_two_angles P c joints =
     (case calc_at c joints (''R_'' @ joint1 P) (''R_'' @ joint2 P) (''R_'' @ joint3 P) ''R_1'' of
        Inl e \<Rightarrow> Inl (e, c)
      | Inr (right_angle, c1) \<Rightarrow>
     (case calc_at c1 joints (''L_'' @ joint1 P) (''L_'' @ joint2 P) (''L_'' @ joint3 P) ''L_1'' of
        Inl e \<Rightarrow> Inl (e, c1)
      | Inr (left_angle, c2) \<Rightarrow>
     (case calc_at c2 joints (''R_'' @ joint4 P) (''R_'' @ joint5 P)
             ((if use_alternate_angles P then ''L_'' else ''R_'') @ joint6 P) ''R_2'' of
        Inl e \<Rightarrow> Inl (e, c2)
      | Inr (right_angle2, c3) \<Rightarrow>
     (case calc_at c3 joints (''L_'' @ joint4 P) (''L_'' @ joint5 P)
             ((if use_alternate_angles P then ''R_'' else ''L_'') @ joint6 P) ''L_2'' of
        Inl e \<Rightarrow> Inl (e, c3)
      | Inr (left_angle2, c4) \<Rightarrow>
          Inr ((right_angle, left_angle, right_angle2, left_angle2), c4)))))"

text \<open>The keys that lines 178 to 192 read from a frame.\<close>

definition joints_read :: "two_angles \<Rightarrow> string list" where
  "joints_read P =
     [''R_'' @ joint1 P, ''R_'' @ joint2 P, ''R_'' @ joint3 P,
      ''L_'' @ joint1 P, ''L_'' @ joint2 P, ''L_'' @ joint3 P,
      ''R_'' @ joint4 P, ''R_'' @ joint5 P,
      (if use_alternate_angles P then ''L_'' else ''R_'') @ joint6 P,
      ''L_'' @ joint4 P, ''L_'' @ joint5 P,
      (if use_alternate_angles P then ''R_'' else ''L_'') @ joint6 P]"

text \<open>The chained comparison \<open>lb < v < ub\<close>; with nan both halves are false.\<close>

fun between :: "real \<Rightarrow> npfloat \<Rightarrow> real \<Rightarrow> bool" where
  "between lb (Num v) ub = (lb < v \<and> v < ub)"
| "between lb NaN ub = False"

text \<open>The body of a counting branch (the spoken count is not modelled).\<close>

definition count_rep :: "run \<Rightarrow> run" where
  "count_rep r =
     r\<lparr>flag := True, counter := counter r + 1,
       sett := (sett r)
         \<lparr>number_of_repetitions_in_training :=
            number_of_repetitions_in_training (sett r) + 1,
          patient_repetitions_counting_in_exercise :=
            patient_repetitions_counting_in_exercise (sett r) + 1\<rparr>\<rparr>"

text \<open>Lines 207 to 232: the decision on the four angles of a frame.\<close>

definition two_angles_decide :: "two_angles \<Rightarrow> angles \<Rightarrow> run \<Rightarrow> run" where
  "two_angles_decide P ang r =
     (case ang of
        (Some right_angle, Some left_angle, Some right_angle2, Some left_angle2) \<Rightarrow>
          if left_right_differ P then
            if between (up_lb P) right_angle (up_ub P)
               \<and> between (down_lb P) left_angle (down_ub P)
               \<and> between (up_lb2 P) right_angle2 (up_ub2 P)
               \<and> between (down_lb2 P) left_angle2 (down_ub2 P) \<and> \<not> flag r
            then count_rep r
            else if between (down_lb P) right_angle (down_ub P)
               \<and> between (up_lb P) left_angle (up_ub P)
               \<and> between (down_lb2 P) right_angle2 (down_ub2 P)
               \<and> between (up_lb2 P) left_angle2 (up_ub2 P) \<and> flag r
            then r\<lparr>flag := False\<rparr>
            else r
          else
            if between (up_lb P) right_angle (up_ub P)
               \<and> between (up_lb P) left_angle (up_ub P)
               \<and> between (up_lb2 P) right_angle2 (up_ub2 P)
               \<and> between (up_lb2 P) left_angle2 (up_ub2 P) \<and> \<not> flag r
            then count_rep r
            else if between (down_lb P) right_angle (down_ub P)
               \<and> between (down_lb P) left_angle (down_ub P)
               \<and> between (down_lb2 P) right_angle2 (down_ub2 P)
               \<and> between (down_lb2 P) left_angle2 (down_ub2 P) \<and> flag r
            then r\<lparr>flag := False\<rparr>
            else r
      | _ \<Rightarrow> r)"

text \<open>Line 239, after the loop: the count of the exercise goes to \<open>s.ex_list\<close>.\<close>

definition record_count :: "string \<Rightarrow> run \<Rightarrow> run" where
  "record_count exercise_name r =
     r\<lparr>sett := (sett r)\<lparr>ex_list := (ex_list (sett r))(exercise_name \<mapsto> counter r)\<rparr>\<rparr>"

text \<open>Lines 234 to 237: the target is reached.\<close>

definition succeed :: "run \<Rightarrow> run" where
  "succeed r = r\<lparr>sett := (sett r)\<lparr>req_exercise := '''', success_exercise := True\<rparr>\<rparr>"

text \<open>
  The loop of \<open>exercise_two_angles_3d\<close> over the passes it is given.  \<open>Running\<close>: the
  passes are used up and the loop is still going.  \<open>Crashed\<close>: an exception left the
  method, so line 239 is not reached.
\<close>

fun two_angles_loop ::
  "two_angles \<Rightarrow> string \<Rightarrow> tick list \<Rightarrow> cam \<Rightarrow> run \<Rightarrow> status \<times> cam \<times> run" where
  "two_angles_loop P exercise_name [] c r = (Running, c, r)"
| "two_angles_loop P exercise_name (t # ts) c r =
     (let r1 = (case ext_req t of
                  None \<Rightarrow> r
                | Some q \<Rightarrow> r\<lparr>sett := (sett r)\<lparr>req_exercise := q\<rparr>\<rparr>)
      in if req_exercise (sett r1) \<noteq> exercise_name
         then (Interrupted, c, record_count exercise_name r1)
         else
           (let c1 = (if paused t then c\<lparr>previous_angles := Map.empty\<rparr> else c)
            in case (case frame t of
                       None \<Rightarrow> Inr (c1, r1)
                     | Some joints \<Rightarrow>
                         (case measure_two_angles P c1 joints of
                            Inl (e, c') \<Rightarrow> Inl (e, c')
                          | Inr (ang, c') \<Rightarrow> Inr (c', two_angles_decide P ang r1))) of
                 Inl (e, c') \<Rightarrow> (Crashed e, c', r1)
               | Inr (c', r3) \<Rightarrow>
                   if counter r3 = rep (sett r3)
                   then (Success, c', record_count exercise_name (succeed r3))
                   else two_angles_loop P exercise_name ts c' r3))"

text \<open>\<open>exercise_two_angles_3d\<close>: the locals start as \<open>flag = True\<close>, \<open>counter = 0\<close>.\<close>

definition exercise_two_angles_3d ::
  "two_angles \<Rightarrow> string \<Rightarrow> tick list \<Rightarrow> cam \<Rightarrow> settings \<Rightarrow> status \<times> cam \<times> run" where
  "exercise_two_angles_3d P exercise_name ticks c s =
     two_angles_loop P exercise_name ticks c \<lparr>flag = True, counter = 0, sett = s\<rparr>"

text \<open>
  The same loop when the four angles of every pass are given (None: no frame) and no
  other thread writes \<open>s.req_exercise\<close>: the part of the loop that counts.
\<close>

fun two_angles_track ::
  "two_angles \<Rightarrow> string \<Rightarrow> angles option list \<Rightarrow> run \<Rightarrow> status \<times> run" where
  "two_angles_track P exercise_name [] r = (Running, r)"
| "two_angles_track P exercise_name (ob # obs) r =
     (if req_exercise (sett r) \<noteq> exercise_name
      then (Interrupted, record_count exercise_name r)
      else
        (let r3 = (case ob of None \<Rightarrow> r | Some ang \<Rightarrow> two_angles_decide P ang r)
         in if counter r3 = rep (sett r3)
            then (Success, record_count exercise_name (succeed r3))
            else two_angles_track P exercise_name obs r3))"

text \<open>The angles that the passes of a run measure, from the camera state at its start.\<close>

fun observations :: "two_angles \<Rightarrow> cam \<Rightarrow> tick list \<Rightarrow> angles option list option" where
  "observations P c [] = Some []"
| "observations P c (t # ts) =
     (let c1 = (if paused t then c\<lparr>previous_angles := Map.empty\<rparr> else c)
      in case frame t of
           None \<Rightarrow> map_option (\<lambda>obs. None # obs) (observations P c1 ts)
         | Some joints \<Rightarrow>
             (case measure_two_angles P c1 joints of
                Inl e \<Rightarrow> None
              | Inr (ang, c') \<Rightarrow> map_option (\<lambda>obs. Some ang # obs) (observations P c' ts)))"

text \<open>Two entries of the exercise catalogue (EX1 and EX5).\<close>

definition ball_bend_elbows :: two_angles where
  "ball_bend_elbows =
     \<lparr>joint1 = ''shoulder'', joint2 = ''elbow'', joint3 = ''wrist'',
      up_lb = 150, up_ub = 180, down_lb = 10, down_ub = 60,
      joint4 = ''elbow'', joint5 = ''shoulder'', joint6 = ''hip'',
      up_lb2 = 0, up_ub2 = 60, down_lb2 = 0, down_ub2 = 60,
      use_alternate_angles = False, left_right_differ = False\<rparr>"

definition ball_open_arms_above_head :: two_angles where
  "ball_open_arms_above_head =
     \<lparr>joint1 = ''elbow'', joint2 = ''shoulder'', joint3 = ''hip'',
      up_lb = 145, up_ub = 180, down_lb = 80, down_ub = 110,
      joint4 = ''shoulder'', joint5 = ''elbow'', joint6 = ''wrist'',
      up_lb2 = 130, up_ub2 = 180, down_lb2 = 130, down_ub2 = 180,
      use_alternate_angles = False, left_right_differ = False\<rparr>"

section \<open>Full-protocol calibration\<close>

text \<open>
  An entry of \<open>calibration_measurements\<close> (Patient_Calibration.py): its key, its joint
  triple and the clinically normal maximum and minimum.  The texts shown to the patient
  are left out.
\<close>

record measurement =
  m_name :: string
  m_joints :: "string \<times> string \<times> string"
  normal_max :: real
  normal_min :: real

definition calibration_measurements :: "measurement list" where
  "calibration_measurements =
     [\<lparr>m_name = ''R_Shoulder_Hip_Elbow'', m_joints = (''R_hip'', ''R_shoulder'', ''R_elbow''),
       normal_max = 180, normal_min = 10\<rparr>,
      \<lparr>m_name = ''L_Shoulder_Hip_Elbow'', m_joints = (''L_hip'', ''L_shoulder'', ''L_elbow''),
       normal_max = 180, normal_min = 10\<rparr>,
      \<lparr>m_name = ''R_Shoulder_Hip_Wrist'', m_joints = (''R_hip'', ''R_shoulder'', ''R_wrist''),
       normal_max = 150, normal_min = 20\<rparr>,
      \<lparr>m_name = ''L_Shoulder_Hip_Wrist'', m_joints = (''L_hip'', ''L_shoulder'', ''L_wrist''),
       normal_max = 150, normal_min = 20\<rparr>,
      \<lparr>m_name = ''R_Elbow'', m_joints = (''R_shoulder'', ''R_elbow'', ''R_wrist''),
       normal_max = 150, normal_min = 5\<rparr>,
      \<lparr>m_name = ''L_Elbow'', m_joints = (''L_shoulder'', ''L_elbow'', ''L_wrist''),
       normal_max = 150, normal_min = 5\<rparr>,
      \<lparr>m_name = ''R_Elbow_Shoulder_Hip'', m_joints = (''R_elbow'', ''R_shoulder'', ''R_hip''),
       normal_max = 180, normal_min = 0\<rparr>,
      \<lparr>m_name = ''L_Elbow_Shoulder_Hip'', m_joints = (''L_elbow'', ''L_shoulder'', ''L_hip''),
       normal_max = 180, normal_min = 0\<rparr>,
      \<lparr>m_name = ''R_Wrist_Shoulder_Shoulder'',
       m_joints = (''R_wrist'', ''R_shoulder'', ''L_shoulder''),
       normal_max = 180, normal_min = 60\<rparr>,
      \<lparr>m_name = ''L_Wrist_Shoulder_Shoulder'',
       m_joints = (''L_wrist'', ''L_shoulder'', ''R_shoulder''),
       normal_max = 180, normal_min = 60\<rparr>,
      \<lparr>m_name = ''R_Wrist_Hip_Hip'', m_joints = (''R_wrist'', ''R_hip'', ''L_hip''),
       normal_max = 160, normal_min = 35\<rparr>,
      \<lparr>m_name = ''L_Wrist_Hip_Hip'', m_joints = (''L_wrist'', ''L_hip'', ''R_hip''),
       normal_max = 160, normal_min = 35\<rparr>,
      \<lparr>m_name = ''R_Wrist_Elbow_Shoulder'', m_joints = (''R_wrist'', ''R_elbow'', ''R_shoulder''),
       normal_max = 180, normal_min = 120\<rparr>,
      \<lparr>m_name = ''L_Wrist_Elbow_Shoulder'', m_joints = (''L_wrist'', ''L_elbow'', ''L_shoulder''),
       normal_max = 180, normal_min = 120\<rparr>,
      \<lparr>m_name = ''R_Wrist_Shoulder_Hip'', m_joints = (''R_wrist'', ''R_shoulder'', ''R_hip''),
       normal_max = 135, normal_min = 80\<rparr>,
      \<lparr>m_name = ''L_Wrist_Shoulder_Hip'', m_joints = (''L_wrist'', ''L_shoulder'', ''L_hip''),
       normal_max = 135, normal_min = 80\<rparr>]"

text \<open>
  One pass of the sampling loop of \<open>capture_angle\<close>: the value of \<open>s.stop_requested\<close>
  read at its start and what \<open>get_skeleton_data\<close> returns.  A window is the list of the
  passes that the clock lets begin before \<open>duration\<close> is over.
\<close>

record cal_tick =
  stop_seen :: bool
  skeleton_seen :: "skeleton option"

text \<open>\<open>angle is not None and angle > 0\<close>.\<close>

fun valid_sample :: "npfloat option \<Rightarrow> real option" where
  "valid_sample (Some (Num v)) = (if v > 0 then Some v else None)"
| "valid_sample (Some NaN) = None"
| "valid_sample None = None"

text \<open>
  The \<open>while\<close> loop of \<open>capture_angle\<close>: the samples so far, the camera, and the number
  of passes that ran to their end.  The result is None when a pass found the stop
  request.  A missing joint is the KeyError that the loop catches and passes over.
\<close>

fun capture_loop ::
  "string \<times> string \<times> string \<Rightarrow> cal_tick list \<Rightarrow> real list \<Rightarrow> cam \<Rightarrow> nat
     \<Rightarrow> real list option \<times> cam \<times> nat" where
  "capture_loop joints [] samples c n = (Some samples, c, n)"
| "capture_loop joints (t # ts) samples c n =
     (if stop_seen t then (None, c, n)
      else case skeleton_seen t of
        None \<Rightarrow> capture_loop joints ts samples c (Suc n)
      | Some skeleton \<Rightarrow>
          (case calc_at c skeleton (fst joints) (fst (snd joints)) (snd (snd joints))
                  ''calibration'' of
             Inl e \<Rightarrow> capture_loop joints ts samples c (Suc n)
           | Inr (angle, c') \<Rightarrow>
               capture_loop joints ts
                 (case valid_sample angle of None \<Rightarrow> samples | Some v \<Rightarrow> samples @ [v])
                 c' (Suc n)))"

text \<open>\<open>capture_angle\<close>: the maximum or the minimum of the samples, None without samples.\<close>

definition capture_angle ::
  "string \<times> string \<times> string \<Rightarrow> cal_tick list \<Rightarrow> string \<Rightarrow> cam
     \<Rightarrow> real option \<times> cam \<times> nat" where
  "capture_angle joints window target c =
     (case capture_loop joints window [] c 0 of
        (None, c', n) \<Rightarrow> (None, c', n)
      | (Some [], c', n) \<Rightarrow> (None, c', n)
      | (Some (v # vs), c', n) \<Rightarrow>
          (Some (if target = ''max'' then fold max vs v else fold min vs v), c', n))"

text \<open>\<open>measure_rom\<close>: None for \<open>(False, None, None)\<close>, else the pair (max, min).\<close>

definition measure_rom ::
  "measurement \<Rightarrow> cal_tick list \<Rightarrow> cal_tick list \<Rightarrow> cam \<Rightarrow> (real \<times> real) option \<times> cam" where
  "measure_rom config max_window min_window c =
     (case capture_angle (m_joints config) max_window ''max'' c of
        (None, c1, n1) \<Rightarrow> (None, c1)
      | (Some max_angle, c1, n1) \<Rightarrow>
          (case capture_angle (m_joints config) min_window ''min'' c1 of
             (None, c2, n2) \<Rightarrow> (None, c2)
           | (Some min_angle, c2, n2) \<Rightarrow>
               if max_angle < min_angle then (Some (min_angle, max_angle), c2)
               else (Some (max_angle, min_angle), c2)))"

text \<open>
  What happens during one measurement of \<open>run_calibration\<close>: the stop flag read at the
  head of the \<open>for\<close> loop and the two sampling windows.
\<close>

record meas_env =
  stop_at_start :: bool
  max_window :: "cal_tick list"
  min_window :: "cal_tick list"

text \<open>
  The \<open>for\<close> loop of \<open>run_calibration\<close>; None when it returns False at a boundary.
\<close>

fun calibration_loop ::
  "measurement list \<Rightarrow> (string \<Rightarrow> meas_env) \<Rightarrow> (string \<rightharpoonup> real) \<Rightarrow> cam
     \<Rightarrow> (string \<rightharpoonup> real) option \<times> cam" where
  "calibration_loop [] env rom_data c = (Some rom_data, c)"
| "calibration_loop (m # ms) env rom_data c =
     (if stop_at_start (env (m_name m)) then (None, c)
      else case measure_rom m (max_window (env (m_name m))) (min_window (env (m_name m))) c of
        (Some (max_val, min_val), c') \<Rightarrow>
          calibration_loop ms env
            (rom_data(m_name m @ ''_Max'' \<mapsto> max_val, m_name m @ ''_Min'' \<mapsto> min_val)) c'
      | (None, c') \<Rightarrow>
          calibration_loop ms env
            (rom_data(m_name m @ ''_Max'' \<mapsto> normal_max m,
                      m_name m @ ''_Min'' \<mapsto> normal_min m)) c')"

text \<open>
  \<open>run_calibration\<close>.  The scores and the write to the Excel file (which catches its own
  errors) are left out.
\<close>

definition run_calibration ::
  "(string \<Rightarrow> meas_env) \<Rightarrow> cam \<Rightarrow> settings \<Rightarrow> bool \<times> cam \<times> settings" where
  "run_calibration env c s =
     (let s0 = s\<lparr>patient_calibrated := Some False\<rparr>
      in case calibration_loop calibration_measurements env Map.empty c of
           (None, c') \<Rightarrow> (False, c', s0)
         | (Some rom_data, c') \<Rightarrow>
             (True, c', s0\<lparr>patient_rom := Some rom_data, patient_calibrated := Some True\<rparr>))"

section \<open>Simplified calibration\<close>

text \<open>
  \<open>calibrate_one_exercise\<close> (Patient_Calibration_Simple.py).  It writes the request and
  the starting ranges, waits while the camera thread runs the exercise, then withdraws
  the request and reads the ranges.  The passes are those that the camera thread makes
  during the wait, whatever ends it (a repetition, the 30 seconds or a stop request).
\<close>

definition calibrate_one_exercise ::
  "two_angles \<Rightarrow> string \<Rightarrow> tick list \<Rightarrow> cam \<Rightarrow> settings \<Rightarrow> ranges option \<times> cam \<times> settings" where
  "calibrate_one_exercise P exercise_name ticks c s =
     (let s1 = s\<lparr>req_exercise := exercise_name,
                 patient_repetitions_counting_in_exercise := 0,
                 calibration_mode := True,
                 calibration_ranges :=
                   \<lparr>right_max = 0, right_min = 180, left_max = 0, left_min = 180\<rparr>\<rparr>;
          (st, c', r) = exercise_two_angles_3d P exercise_name ticks c s1;
          s2 = (sett r)\<lparr>req_exercise := '''', calibration_mode := False\<rparr>
      in (if patient_repetitions_counting_in_exercise s2 \<ge> 1
          then Some \<lparr>right_max = right_max (calibration_ranges s2),
                     right_min = right_min (calibration_ranges s2),
                     left_max = left_max (calibration_ranges s2),
                     left_min = left_min (calibration_ranges s2)\<rparr>
          else None,
          c', s2))"

text \<open>A row of the sheet of PatientROM_Simple.xlsx.\<close>

record row =
  PatientID :: string
  Date :: string
  Exercise :: string
  Right_Max :: real
  Right_Min :: real
  Left_Max :: real
  Left_Min :: real

text \<open>
  \<open>save_to_excel\<close>: one row per exercise of the session, appended; \<open>date_str\<close> is the
  clock's \<open>%Y-%m-%d %H:%M\<close>.  The session's data are in the order of insertion.
\<close>

definition save_to_excel ::
  "row list \<Rightarrow> string \<Rightarrow> string \<Rightarrow> (string \<times> ranges) list \<Rightarrow> row list" where
  "save_to_excel sheet patient_id date_str calibration_data =
     sheet @ map (\<lambda>(exercise, rg).
                    \<lparr>PatientID = patient_id, Date = date_str, Exercise = exercise,
                     Right_Max = right_max rg, Right_Min = right_min rg,
                     Left_Max = left_max rg, Left_Min = left_min rg\<rparr>) calibration_data"

text \<open>
  \<open>load_from_excel\<close>: the patient's rows, sorted by \<open>Date\<close> with the latest first, are
  gone through in that order and each one overwrites the entry of its exercise.  (Rows
  of equal date keep no particular order in pandas; here they come out reversed.)
\<close>

definition load_from_excel :: "row list \<Rightarrow> string \<Rightarrow> (string \<rightharpoonup> ranges) option" where
  "load_from_excel sheet patient_id =
     (let patient_data = filter (\<lambda>r. PatientID r = patient_id) sheet
      in if patient_data = [] then None
         else Some (fold (\<lambda>r calibration.
                            calibration(Exercise r \<mapsto>
                              \<lparr>right_max = Right_Max r, right_min = Right_Min r,
                               left_max = Left_Max r, left_min = Left_Min r\<rparr>))
                      (rev (sort_key Date patient_data)) Map.empty))"

text \<open>
  Two frames for concrete runs: the arms stretched out to the sides, and the arms
  stretched straight up.
\<close>

definition pose_arms_out :: skeleton where
  "pose_arms_out =
     [''R_shoulder'' \<mapsto> \<lparr>jx = 0, jy = 0, jz = 0\<rparr>, ''R_elbow'' \<mapsto> \<lparr>jx = 1, jy = 0, jz = 0\<rparr>,
      ''R_wrist'' \<mapsto> \<lparr>jx = 2, jy = 0, jz = 0\<rparr>, ''R_hip'' \<mapsto> \<lparr>jx = 0, jy = - 1, jz = 0\<rparr>,
      ''L_shoulder'' \<mapsto> \<lparr>jx = - 3, jy = 0, jz = 0\<rparr>, ''L_elbow'' \<mapsto> \<lparr>jx = - 4, jy = 0, jz = 0\<rparr>,
      ''L_wrist'' \<mapsto> \<lparr>jx = - 5, jy = 0, jz = 0\<rparr>, ''L_hip'' \<mapsto> \<lparr>jx = - 3, jy = - 1, jz = 0\<rparr>]"

definition pose_arms_up :: skeleton where
  "pose_arms_up =
     [''R_shoulder'' \<mapsto> \<lparr>jx = 0, jy = 0, jz = 0\<rparr>, ''R_elbow'' \<mapsto> \<lparr>jx = 0, jy = 1, jz = 0\<rparr>,
      ''R_wrist'' \<mapsto> \<lparr>jx = 0, jy = 2, jz = 0\<rparr>, ''R_hip'' \<mapsto> \<lparr>jx = 0, jy = - 1, jz = 0\<rparr>,
      ''L_shoulder'' \<mapsto> \<lparr>jx = - 3, jy = 0, jz = 0\<rparr>, ''L_elbow'' \<mapsto> \<lparr>jx = - 3, jy = 1, jz = 0\<rparr>,
      ''L_wrist'' \<mapsto> \<lparr>jx = - 3, jy = 2, jz = 0\<rparr>, ''L_hip'' \<mapsto> \<lparr>jx = - 3, jy = - 1, jz = 0\<rparr>]"

text \<open>
  A frame for \<open>ball_bend_elbows\<close>: on both sides the angle at the elbow (shoulder,
  elbow, wrist) is \<open>t\<close> radians and the angle at the shoulder (elbow, shoulder, hip)
  is 30 degrees.  The left arm is the right arm moved along the third axis.
\<close>

definition pose_elbows :: "real \<Rightarrow> skeleton" where
  "pose_elbows t =
     [''R_elbow'' \<mapsto> \<lparr>jx = 0, jy = 0, jz = 0\<rparr>,
      ''R_shoulder'' \<mapsto> \<lparr>jx = 1, jy = 0, jz = 0\<rparr>,
      ''R_wrist'' \<mapsto> \<lparr>jx = cos t, jy = sin t, jz = 0\<rparr>,
      ''R_hip'' \<mapsto> \<lparr>jx = 1 - cos (pi / 6), jy = - sin (pi / 6), jz = 0\<rparr>,
      ''L_elbow'' \<mapsto> \<lparr>jx = 0, jy = 0, jz = 5\<rparr>,
      ''L_shoulder'' \<mapsto> \<lparr>jx = 1, jy = 0, jz = 5\<rparr>,
      ''L_wrist'' \<mapsto> \<lparr>jx = cos t, jy = sin t, jz = 5\<rparr>,
      ''L_hip'' \<mapsto> \<lparr>jx = 1 - cos (pi / 6), jy = - sin (pi / 6), jz = 5\<rparr>]"

text \<open>
  A pass that finds the training paused (so the slots are cleared before the frame is
  fetched) and then receives the pose with elbow angle \<open>t\<close>.
\<close>

definition paused_pass :: "real \<Rightarrow> tick" where
  "paused_pass t = \<lparr>ext_req = None, paused = True, frame = Some (pose_elbows t)\<rparr>"

text \<open>
  The measured angles of a pass: \<open>v\<close> on both sides for the first joint triple and
  \<open>w\<close> on both sides for the second.  Five cycles of two alternating items.
\<close>

definition both_sides :: "real \<Rightarrow> npfloat \<Rightarrow> angles option" where
  "both_sides v w = Some (Some (Num v), Some (Num v), Some w, Some w)"

definition five_cycles :: "'a \<Rightarrow> 'a \<Rightarrow> 'a list" where
  "five_cycles x y = [x, y, x, y, x, y, x, y, x, y]"

section \<open>Properties\<close>

subsection \<open>Adaptive range resolver\<close>

text \<open>
  C5.  Without calibration, or with the key's maximum or minimum absent from the record,
  the resolver returns the defaults unchanged.  With both present it returns
  (patientMin, patientMin + 0.9 (patientMax - patientMin)) when patientMax is below the
  default maximum, and the defaults when patientMax is at least the default maximum.
\<close>

theorem get_adaptive_range_for_joint_cases:
  "(patient_calibrated s \<noteq> Some True \<or> patient_rom s = None
      \<or> (\<exists>rom. patient_rom s = Some rom
            \<and> (rom (k @ ''_Max'') = None \<or> rom (k @ ''_Min'') = None))
    \<longrightarrow> get_adaptive_range_for_joint s k dmin dmax = (dmin, dmax))
   \<and> (patient_calibrated s = Some True \<and> patient_rom s = Some rom
      \<and> rom (k @ ''_Max'') = Some pmax \<and> rom (k @ ''_Min'') = Some pmin
    \<longrightarrow> get_adaptive_range_for_joint s k dmin dmax =
          (if pmax < dmax then (pmin, pmin + 0.9 * (pmax - pmin)) else (dmin, dmax)))"
  by (auto simp: get_adaptive_range_for_joint_def Let_def split: option.splits)

theorem get_adaptive_range_for_joint_cases_witness:
  "get_adaptive_range_for_joint main_settings ''R_Elbow'' 5 150 = (5, 150)
   \<and> get_adaptive_range_for_joint
        (main_settings\<lparr>patient_calibrated := Some True,
           patient_rom := Some [''R_Elbow_Max'' \<mapsto> 120, ''R_Elbow_Min'' \<mapsto> 20]\<rparr>)
        ''R_Elbow'' 5 150 = (20, 110)
   \<and> get_adaptive_range_for_joint
        (main_settings\<lparr>patient_calibrated := Some True,
           patient_rom := Some [''R_Elbow_Max'' \<mapsto> 160, ''R_Elbow_Min'' \<mapsto> 20]\<rparr>)
        ''R_Elbow'' 5 150 = (5, 150)"
  using get_adaptive_range_for_joint_cases [of main_settings "''R_Elbow''" 5 150]
    get_adaptive_range_for_joint_cases
      [of "main_settings\<lparr>patient_calibrated := Some True,
           patient_rom := Some [''R_Elbow_Max'' \<mapsto> 120, ''R_Elbow_Min'' \<mapsto> 20]\<rparr>"
          "''R_Elbow''" 5 150 "[''R_Elbow_Max'' \<mapsto> 120, ''R_Elbow_Min'' \<mapsto> 20]" 120 20]
    get_adaptive_range_for_joint_cases
      [of "main_settings\<lparr>patient_calibrated := Some True,
           patient_rom := Some [''R_Elbow_Max'' \<mapsto> 160, ''R_Elbow_Min'' \<mapsto> 20]\<rparr>"
          "''R_Elbow''" 5 150 "[''R_Elbow_Max'' \<mapsto> 160, ''R_Elbow_Min'' \<mapsto> 20]" 160 20]
  by (simp add: main_settings_def)

subsection \<open>Angle computation on degenerate joints\<close>

lemma norm3_zero_iff: "norm3 v = 0 \<longleftrightarrow> v = (0, 0, 0)"
proof (cases v)
  case (fields a b c)
  have "a * a + b * b + c * c = 0 \<longleftrightarrow> a = 0 \<and> b = 0 \<and> c = 0"
    by (smt (verit) mult_eq_0_iff zero_le_square add_nonneg_eq_0_iff add_nonneg_nonneg)
  then show ?thesis using fields by (simp add: norm3_def)
qed

lemma vsub_zero_iff: "vsub a b = (0, 0, 0) \<longleftrightarrow> a = b"
  by (cases a; cases b) auto

lemma dot_zero_left: "dot (0, 0, 0) v = 0"
  by (cases v) simp

lemma dot_zero_right: "dot v (0, 0, 0) = 0"
  by (cases v) simp

lemma cosine_angle_degenerate:
  "ba = (0, 0, 0) \<or> bc = (0, 0, 0) \<Longrightarrow> cosine_angle ba bc = NaN"
  by (auto simp: cosine_angle_def Let_def norm3_zero_iff dot_zero_left dot_zero_right)

lemma cosine_angle_regular:
  "ba \<noteq> (0, 0, 0) \<Longrightarrow> bc \<noteq> (0, 0, 0) \<Longrightarrow> \<exists>v. cosine_angle ba bc = Num v"
  by (auto simp: cosine_angle_def Let_def norm3_zero_iff)

lemma raw_angle_Num: "\<exists>w. raw_angle (Num v) = Num w"
  by (simp add: raw_angle_def Let_def)

lemma calc_angle_3d_degenerate:
  assumes "vec_of j1 = vec_of j2 \<or> vec_of j3 = vec_of j2"
  shows "calc_angle_3d c j1 j2 j3 slot =
           (Some NaN, c\<lparr>previous_angles := (previous_angles c)(slot \<mapsto> NaN)\<rparr>)"
proof -
  have "cosine_angle (vsub (vec_of j1) (vec_of j2)) (vsub (vec_of j3) (vec_of j2)) = NaN"
    using assms by (intro cosine_angle_degenerate) (auto simp: vsub_zero_iff)
  then show ?thesis
    by (auto simp: calc_angle_3d_def Let_def raw_angle_def limit_angle_jump_def
        split: option.splits npfloat.splits)
qed

text \<open>
  C3.  The claim: when the first or the third joint coincides with the vertex, the angle
  computation gives no result (None), never nan.  What the code does: the division is
  0/0, numpy gives nan without raising, the \<open>except\<close> branch is not entered, and the
  call returns nan (and stores nan in the slot).
\<close>

theorem calc_angle_3d_zero_length_returns_nan:
  "vec_of j1 = vec_of j2 \<or> vec_of j3 = vec_of j2 \<Longrightarrow>
   fst (calc_angle_3d c j1 j2 j3 slot) = Some NaN
   \<and> fst (calc_angle_3d c j1 j2 j3 slot) \<noteq> None
   \<and> previous_angles (snd (calc_angle_3d c j1 j2 j3 slot)) slot = Some NaN"
  by (simp add: calc_angle_3d_degenerate)

theorem calc_angle_3d_zero_length_returns_nan_witness:
  "fst (calc_angle_3d init_cam \<lparr>jx = 0, jy = 0, jz = 0\<rparr> \<lparr>jx = 0, jy = 0, jz = 0\<rparr>
          \<lparr>jx = 1, jy = 0, jz = 0\<rparr> ''R_1'') = Some NaN"
  using calc_angle_3d_zero_length_returns_nan
    [of "\<lparr>jx = 0, jy = 0, jz = 0\<rparr>" "\<lparr>jx = 0, jy = 0, jz = 0\<rparr>"
        "\<lparr>jx = 1, jy = 0, jz = 0\<rparr>" init_cam "''R_1''"]
  by simp

subsection \<open>Jump limiting and rounding\<close>

lemma rint_close: "\<bar>of_int (rint v) - v\<bar> \<le> 1 / 2"
  unfolding rint_def Let_def by (auto; linarith)

lemma round2_close: "\<bar>round2 v - v\<bar> \<le> 1 / 200"
proof -
  have "\<bar>of_int (rint (v * 100)) - v * 100\<bar> \<le> 1 / 2" by (rule rint_close)
  then show ?thesis unfolding round2_def by (simp add: field_simps abs_le_iff)
qed

lemma limit_angle_jump_within:
  assumes "previous_angles c slot = Some (Num p)" "0 \<le> max_angle_jump c"
  shows "\<exists>a'. limit_angle_jump c (Num a) slot = Inr (Num a') \<and> \<bar>a' - p\<bar> \<le> max_angle_jump c"
  using assms by (auto simp: limit_angle_jump_def Let_def)

lemma calc_angle_3d_regular_limited:
  assumes slot: "previous_angles c slot = Some (Num p)"
    and J: "0 \<le> max_angle_jump c"
    and arms: "vec_of j1 \<noteq> vec_of j2" "vec_of j3 \<noteq> vec_of j2"
  shows "\<exists>a'. calc_angle_3d c j1 j2 j3 slot =
            (Some (Num (round2 a')), c\<lparr>previous_angles := (previous_angles c)(slot \<mapsto> Num a')\<rparr>)
          \<and> \<bar>a' - p\<bar> \<le> max_angle_jump c"
proof -
  obtain v where v:
    "cosine_angle (vsub (vec_of j1) (vec_of j2)) (vsub (vec_of j3) (vec_of j2)) = Num v"
    using cosine_angle_regular [of "vsub (vec_of j1) (vec_of j2)" "vsub (vec_of j3) (vec_of j2)"]
      arms
    by (auto simp: vsub_zero_iff)
  obtain w where w: "raw_angle (Num v) = Num w" using raw_angle_Num by blast
  obtain a' where a':
    "limit_angle_jump c (Num w) slot = Inr (Num a')" "\<bar>a' - p\<bar> \<le> max_angle_jump c"
    using limit_angle_jump_within [OF slot J] by blast
  show ?thesis using v w a' slot by (auto simp: calc_angle_3d_def Let_def)
qed

lemma raw_angle_right: "raw_angle (Num 0) = Num 90"
  by (simp add: raw_angle_def Let_def isclose_def)

lemma raw_angle_straight: "raw_angle (Num (- 1)) = Num (1799 / 10)"
  by (simp add: raw_angle_def Let_def isclose_def)

lemma cosine_angle_perpendicular: "cosine_angle (1, 0, 0) (0, 1, 0) = Num 0"
  by (simp add: cosine_angle_def norm3_def Let_def)

text \<open>
  C4, as stated, fails: the slot holds 0.006, the joints form a right angle and the
  maximal jump is 10; the limited angle is 10.006 and the call returns it rounded,
  10.01, which is farther than 10 from the stored 0.006.
\<close>

theorem calc_angle_3d_jump_counterexample:
  "fst (calc_angle_3d \<lparr>previous_angles = [''R_1'' \<mapsto> Num (6 / 1000)], max_angle_jump = 10\<rparr>
         \<lparr>jx = 1, jy = 0, jz = 0\<rparr> \<lparr>jx = 0, jy = 0, jz = 0\<rparr> \<lparr>jx = 0, jy = 1, jz = 0\<rparr>
         ''R_1'')
     = Some (Num (1001 / 100))
   \<and> \<not> \<bar>1001 / 100 - 6 / 1000\<bar> \<le> (10::real)"
  by (simp add: calc_angle_3d_def vec_of_def Let_def cosine_angle_perpendicular raw_angle_right
      limit_angle_jump_def round2_def rint_def)

text \<open>
  C4, amended.  On a slot whose stored previous angle is a number P, with a maximal jump
  J that is not negative and joints that do not coincide with the vertex, the angle
  that the call stores as the new previous angle differs from P by at most J; the value
  returned is that angle rounded to two decimals, so it differs from P by at most
  J + 0.005.
\<close>

theorem calc_angle_3d_jump_limited:
  assumes "previous_angles c slot = Some (Num p)"
    and "0 \<le> max_angle_jump c"
    and "vec_of j1 \<noteq> vec_of j2" and "vec_of j3 \<noteq> vec_of j2"
  shows "\<exists>a'. previous_angles (snd (calc_angle_3d c j1 j2 j3 slot)) slot = Some (Num a')
          \<and> fst (calc_angle_3d c j1 j2 j3 slot) = Some (Num (round2 a'))
          \<and> \<bar>a' - p\<bar> \<le> max_angle_jump c
          \<and> \<bar>round2 a' - p\<bar> \<le> max_angle_jump c + 1 / 200"
proof -
  obtain a' where a':
    "calc_angle_3d c j1 j2 j3 slot =
       (Some (Num (round2 a')), c\<lparr>previous_angles := (previous_angles c)(slot \<mapsto> Num a')\<rparr>)"
    "\<bar>a' - p\<bar> \<le> max_angle_jump c"
    using calc_angle_3d_regular_limited [OF assms] by blast
  have "\<bar>round2 a' - p\<bar> \<le> max_angle_jump c + 1 / 200"
    using round2_close [of a'] a'(2) by linarith
  then show ?thesis using a' by auto
qed

theorem calc_angle_3d_jump_limited_witness:
  "\<exists>a'. previous_angles
          (snd (calc_angle_3d \<lparr>previous_angles = [''R_1'' \<mapsto> Num 40], max_angle_jump = 10\<rparr>
                  \<lparr>jx = 1, jy = 0, jz = 0\<rparr> \<lparr>jx = 0, jy = 0, jz = 0\<rparr>
                  \<lparr>jx = 0, jy = 1, jz = 0\<rparr> ''R_1'')) ''R_1'' = Some (Num a')
        \<and> fst (calc_angle_3d \<lparr>previous_angles = [''R_1'' \<mapsto> Num 40], max_angle_jump = 10\<rparr>
                  \<lparr>jx = 1, jy = 0, jz = 0\<rparr> \<lparr>jx = 0, jy = 0, jz = 0\<rparr>
                  \<lparr>jx = 0, jy = 1, jz = 0\<rparr> ''R_1'') = Some (Num (round2 a'))
        \<and> \<bar>a' - 40\<bar> \<le> 10 \<and> \<bar>round2 a' - 40\<bar> \<le> 10 + 1 / 200"
  using calc_angle_3d_jump_limited
    [of "\<lparr>previous_angles = [''R_1'' \<mapsto> Num 40], max_angle_jump = 10\<rparr>" "''R_1''" 40
        "\<lparr>jx = 1, jy = 0, jz = 0\<rparr>" "\<lparr>jx = 0, jy = 0, jz = 0\<rparr>" "\<lparr>jx = 0, jy = 1, jz = 0\<rparr>"]
  by (simp add: vec_of_def)

subsection \<open>The repetition counter\<close>

text \<open>
  The loop of \<open>exercise_two_angles_3d\<close> is \<open>two_angles_track\<close> on the angles that its
  passes measure, as long as no other thread writes the request and no read of a joint
  raises.
\<close>

lemma two_angles_loop_track:
  assumes "\<forall>t \<in> set ticks. ext_req t = None"
    and "observations P c ticks = Some obs"
  shows "\<exists>c'. two_angles_loop P name ticks c r =
           (fst (two_angles_track P name obs r), c', snd (two_angles_track P name obs r))"
  using assms
proof (induction ticks arbitrary: c r obs)
  case Nil
  then show ?case by simp
next
  case (Cons t ts)
  define c1 where "c1 = (if paused t then c\<lparr>previous_angles := Map.empty\<rparr> else c)"
  have ext: "ext_req t = None" and rest: "\<forall>t \<in> set ts. ext_req t = None"
    using Cons.prems(1) by auto
  show ?case
  proof (cases "frame t")
    case None
    then obtain obs' where obs': "observations P c1 ts = Some obs'" "obs = None # obs'"
      using Cons.prems(2) by (auto simp: c1_def Let_def split: if_splits)
    from Cons.IH [OF rest obs'(1), of r]
    obtain c' where c': "two_angles_loop P name ts c1 r =
        (fst (two_angles_track P name obs' r), c', snd (two_angles_track P name obs' r))"
      by blast
    show ?thesis
      using ext obs'(2) None c' c1_def
      by (simp add: Let_def)
  next
    case (Some joints)
    then obtain ang c2 obs' where m: "measure_two_angles P c1 joints = Inr (ang, c2)"
      and obs': "observations P c2 ts = Some obs'" "obs = Some ang # obs'"
      using Cons.prems(2) by (auto simp: c1_def Let_def split: if_splits sum.splits)
    define r3 where "r3 = two_angles_decide P ang r"
    from Cons.IH [OF rest obs'(1), of r3]
    obtain c' where c': "two_angles_loop P name ts c2 r3 =
        (fst (two_angles_track P name obs' r3), c', snd (two_angles_track P name obs' r3))"
      by blast
    show ?thesis
      using ext obs'(2) Some c' c1_def m r3_def
      by (simp add: Let_def)
  qed
qed

text \<open>
  Poses with an exact elbow angle.  The cosine of 10 degrees is below 0.994, so the
  cosines of 170 and of 30 degrees are not within the tolerance of \<open>np.isclose\<close> to
  \<open>-1\<close>, and the angle of such a pose is the angle of its construction.
\<close>

lemma half_angle_bound:
  assumes "0 \<le> cos (x::real)" "cos (2 * x) \<le> b" "(1 + b) / 2 \<le> u\<^sup>2" "0 \<le> u"
  shows "cos x \<le> u"
proof -
  have "(cos x)\<^sup>2 = (1 + cos (2 * x)) / 2" by (simp add: cos_double_cos)
  also have "\<dots> \<le> (1 + b) / 2" using assms(2) by simp
  finally have "(cos x)\<^sup>2 \<le> u\<^sup>2" using assms(3) by linarith
  then show ?thesis using assms(4) by (rule power2_le_imp_le)
qed

lemma cos_pi_18_bound: "cos (pi / 18) \<le> 994 / 1000"
proof -
  have pos: "0 \<le> cos (pi / 6)" "0 \<le> cos (pi / 12)" "0 \<le> cos (pi / 24)"
    by (rule cos_ge_zero; use pi_gt_zero in linarith)+
  have "cos (2 * (pi / 3)) \<le> 1" by simp
  have c3: "cos (2 * (pi / 6)) \<le> 1 / 2" using cos_60 by simp
  have c6: "cos (pi / 6) \<le> 9 / 10"
    by (rule half_angle_bound [OF pos(1) c3]) (simp_all add: power2_eq_square)
  have "cos (2 * (pi / 12)) \<le> 9 / 10" using c6 by simp
  from half_angle_bound [OF pos(2) this, of "975 / 1000"]
  have c12: "cos (pi / 12) \<le> 975 / 1000" by (simp add: power2_eq_square)
  have "cos (2 * (pi / 24)) \<le> 975 / 1000" using c12 by simp
  from half_angle_bound [OF pos(3) this, of "994 / 1000"]
  have c24: "cos (pi / 24) \<le> 994 / 1000" by (simp add: power2_eq_square)
  have "cos (pi / 18) \<le> cos (pi / 24)"
    by (rule cos_monotone_0_pi_le; use pi_gt_zero in linarith)
  then show ?thesis using c24 by linarith
qed

lemma not_isclose_170: "\<not> isclose (cos (17 * pi / 18)) (- 1)"
proof -
  have "cos (17 * pi / 18) = cos (pi - pi / 18)" by (simp add: field_simps)
  also have "\<dots> = - cos (pi / 18)" by (rule cos_pi_minus)
  finally show ?thesis using cos_pi_18_bound by (simp add: isclose_def)
qed

lemma not_isclose_30: "\<not> isclose (cos (pi / 6)) (- 1)"
proof -
  have "0 \<le> cos (pi / 6)" by (rule cos_ge_zero; use pi_gt_zero in linarith)
  then show ?thesis by (simp add: isclose_def)
qed

lemma raw_angle_cos:
  "0 \<le> t \<Longrightarrow> t \<le> pi \<Longrightarrow> \<not> isclose (cos t) (- 1) \<Longrightarrow>
   raw_angle (Num (cos t)) = Num (t * 180 / pi)"
  by (simp add: raw_angle_def Let_def arccos_cos)

lemma cos_clip: "min 1 (max (- 1) (cos (t::real))) = cos t"
  by (simp add: max_absorb2 min_absorb2)

lemma cosine_angle_unit_1: "cosine_angle (1, 0, 0) (cos t, sin t, 0) = Num (cos t)"
  by (simp add: cosine_angle_def norm3_def Let_def cos_clip del: min_less_iff_conj)

lemma cosine_angle_unit_2: "cosine_angle (- 1, 0, 0) (- cos t, - sin t, 0) = Num (cos t)"
  by (simp add: cosine_angle_def norm3_def Let_def cos_clip)

text \<open>
  A paused pass clears the slots before it fetches the frame, so the angles it measures
  are the rounded raw angles of the pose: 30 or 170 at the elbows and 30 at the
  shoulders, right and left alike.
\<close>

lemma measure_pose_elbows:
  assumes "0 \<le> t" "t \<le> pi" "\<not> isclose (cos t) (- 1)"
  shows "measure_two_angles ball_bend_elbows (c\<lparr>previous_angles := Map.empty\<rparr>) (pose_elbows t) =
     Inr ((Some (Num (round2 (t * 180 / pi))), Some (Num (round2 (t * 180 / pi))),
           Some (Num 30), Some (Num 30)),
          c\<lparr>previous_angles := [''R_1'' \<mapsto> Num (t * 180 / pi), ''L_1'' \<mapsto> Num (t * 180 / pi),
             ''R_2'' \<mapsto> Num 30, ''L_2'' \<mapsto> Num 30]\<rparr>)"
proof -
  have r30: "raw_angle (Num (cos (pi / 6))) = Num 30"
    using raw_angle_cos [of "pi / 6"] not_isclose_30 pi_gt_zero by simp
  have rt: "raw_angle (Num (cos t)) = Num (t * 180 / pi)"
    using raw_angle_cos assms by simp
  have r: "round2 30 = 30" by (simp add: round2_def rint_def)
  show ?thesis
    by (simp add: measure_two_angles_def ball_bend_elbows_def pose_elbows_def calc_at_def
        lookup_joint_def calc_angle_3d_def vec_of_def Let_def cosine_angle_unit_1
        cosine_angle_unit_2 r30 rt r)
qed

lemma measure_pose_30:
  "measure_two_angles ball_bend_elbows (c\<lparr>previous_angles := Map.empty\<rparr>) (pose_elbows (pi / 6)) =
     Inr ((Some (Num 30), Some (Num 30), Some (Num 30), Some (Num 30)),
          c\<lparr>previous_angles := [''R_1'' \<mapsto> Num 30, ''L_1'' \<mapsto> Num 30,
             ''R_2'' \<mapsto> Num 30, ''L_2'' \<mapsto> Num 30]\<rparr>)"
  using measure_pose_elbows [of "pi / 6" c] not_isclose_30 pi_gt_zero
  by (simp add: round2_def rint_def)

lemma measure_pose_170:
  "measure_two_angles ball_bend_elbows (c\<lparr>previous_angles := Map.empty\<rparr>)
     (pose_elbows (17 * pi / 18)) =
     Inr ((Some (Num 170), Some (Num 170), Some (Num 30), Some (Num 30)),
          c\<lparr>previous_angles := [''R_1'' \<mapsto> Num 170, ''L_1'' \<mapsto> Num 170,
             ''R_2'' \<mapsto> Num 30, ''L_2'' \<mapsto> Num 30]\<rparr>)"
  using measure_pose_elbows [of "17 * pi / 18" c] not_isclose_170 pi_gt_zero
  by (simp add: round2_def rint_def)

lemma observations_down_first:
  "observations ball_bend_elbows c (five_cycles (paused_pass (pi / 6)) (paused_pass (17 * pi / 18)))
   = Some (five_cycles (both_sides 30 (Num 30)) (both_sides 170 (Num 30)))"
  by (simp add: five_cycles_def paused_pass_def both_sides_def measure_pose_30 measure_pose_170)

lemma observations_up_first:
  "observations ball_bend_elbows c (five_cycles (paused_pass (17 * pi / 18)) (paused_pass (pi / 6)))
   = Some (five_cycles (both_sides 170 (Num 30)) (both_sides 30 (Num 30)))"
  by (simp add: five_cycles_def paused_pass_def both_sides_def measure_pose_30 measure_pose_170)

lemma paused_passes_no_request:
  "\<forall>t \<in> set (five_cycles (paused_pass a) (paused_pass b)). ext_req t = None"
  by (simp add: five_cycles_def paused_pass_def)

text \<open>
  The counting part of the loop on the two scripts of five cycles, from the locals that
  \<open>exercise_two_angles_3d\<close> starts with.
\<close>

lemma two_angles_track_down_first:
  assumes "up_lb P = 150" "up_ub P = 180" "down_lb P = 10" "down_ub P = 60"
    and "\<not> left_right_differ P"
    and "between (up_lb2 P) u2 (up_ub2 P)" "between (down_lb2 P) d2 (down_ub2 P)"
    and "req_exercise s = name" "rep s = 5"
  shows "two_angles_track P name (five_cycles (both_sides 30 d2) (both_sides 170 u2))
           \<lparr>flag = True, counter = 0, sett = s\<rparr>
         = (Success,
            \<lparr>flag = True, counter = 5,
             sett = s\<lparr>number_of_repetitions_in_training :=
                        number_of_repetitions_in_training s + 5,
                      patient_repetitions_counting_in_exercise :=
                        patient_repetitions_counting_in_exercise s + 5,
                      req_exercise := '''', success_exercise := True,
                      ex_list := (ex_list s)(name \<mapsto> 5)\<rparr>\<rparr>)"
  using assms
  by (simp add: five_cycles_def both_sides_def two_angles_decide_def count_rep_def
      succeed_def record_count_def)

lemma two_angles_track_up_first:
  assumes "up_lb P = 150" "up_ub P = 180" "down_lb P = 10" "down_ub P = 60"
    and "\<not> left_right_differ P"
    and "between (up_lb2 P) u2 (up_ub2 P)" "between (down_lb2 P) d2 (down_ub2 P)"
    and "req_exercise s = name" "rep s = 5"
  shows "two_angles_track P name (five_cycles (both_sides 170 u2) (both_sides 30 d2))
           \<lparr>flag = True, counter = 0, sett = s\<rparr>
         = (Running,
            \<lparr>flag = False, counter = 4,
             sett = s\<lparr>number_of_repetitions_in_training :=
                        number_of_repetitions_in_training s + 4,
                      patient_repetitions_counting_in_exercise :=
                        patient_repetitions_counting_in_exercise s + 4\<rparr>\<rparr>)"
  using assms
  by (simp add: five_cycles_def both_sides_def two_angles_decide_def count_rep_def)

text \<open>
  C1, as stated, fails.  \<open>exercise_two_angles_3d\<close> starts with \<open>flag = True\<close>, the value
  that a counted repetition leaves (the UP phase), so the first pass inside the up-range
  counts nothing.  For \<open>ball_bend_elbows\<close> (up-range 150 to 180, down-range 10 to 60,
  shoulder angle between 0 and 60 throughout) with \<open>s.rep = 5\<close>, on ten passes whose
  frames measure 170, 30, 170, 30, ... at both elbows, the method has counted 4 and its
  loop is still running.  (Every pass follows a pause, which clears the smoothing slots:
  without it the jump limit keeps consecutive measured angles within 10 degrees.)
\<close>

theorem exercise_two_angles_3d_up_first_counterexample:
  "fst (exercise_two_angles_3d ball_bend_elbows ''ball_bend_elbows''
          (five_cycles (paused_pass (17 * pi / 18)) (paused_pass (pi / 6))) init_cam
          (main_settings\<lparr>req_exercise := ''ball_bend_elbows''\<rparr>)) = Running
   \<and> counter (snd (snd (exercise_two_angles_3d ball_bend_elbows ''ball_bend_elbows''
          (five_cycles (paused_pass (17 * pi / 18)) (paused_pass (pi / 6))) init_cam
          (main_settings\<lparr>req_exercise := ''ball_bend_elbows''\<rparr>)))) = 4
   \<and> rep main_settings = 5"
proof -
  let ?s = "main_settings\<lparr>req_exercise := ''ball_bend_elbows''\<rparr>"
  let ?r = "\<lparr>flag = True, counter = 0, sett = ?s\<rparr>"
  let ?obs = "five_cycles (both_sides 170 (Num 30)) (both_sides 30 (Num 30))"
  from two_angles_loop_track [OF paused_passes_no_request observations_up_first,
      of "''ball_bend_elbows''" init_cam ?r]
  obtain c' where "two_angles_loop ball_bend_elbows ''ball_bend_elbows''
      (five_cycles (paused_pass (17 * pi / 18)) (paused_pass (pi / 6))) init_cam ?r =
      (fst (two_angles_track ball_bend_elbows ''ball_bend_elbows'' ?obs ?r), c',
       snd (two_angles_track ball_bend_elbows ''ball_bend_elbows'' ?obs ?r))"
    by blast
  moreover have "two_angles_track ball_bend_elbows ''ball_bend_elbows'' ?obs ?r =
      (Running, \<lparr>flag = False, counter = 4,
         sett = ?s\<lparr>number_of_repetitions_in_training :=
                        number_of_repetitions_in_training ?s + 4,
                      patient_repetitions_counting_in_exercise :=
                        patient_repetitions_counting_in_exercise ?s + 4\<rparr>\<rparr>)"
    by (rule two_angles_track_up_first) (simp_all add: ball_bend_elbows_def main_settings_def)
  ultimately show ?thesis
    by (simp add: exercise_two_angles_3d_def main_settings_def)
qed

text \<open>
  C1, amended.  Take an exercise of \<open>exercise_two_angles_3d\<close> without
  \<open>left_right_differ\<close>, with up-range 150 to 180 and down-range 10 to 60 for the first
  joint triple, \<open>s.rep = 5\<close>, \<open>s.req_exercise\<close> equal to the exercise name at the call and
  written by no other thread during the run, and ten passes that each receive a frame
  holding every joint that is read.  Let the measured angle of the first triple be,
  right and left alike, 30 and 170 in alternation for five cycles, the angle of the
  second triple (right and left alike) being strictly inside the second down-range on
  the passes with 30 and strictly inside the second up-range on the passes with 170.
  If the script begins with 30, the run ends in success with counter 5,
  \<open>s.success_exercise\<close> set, \<open>s.req_exercise\<close> emptied and 5 recorded in \<open>s.ex_list\<close>.
  If it begins with 170, that first pass is not counted, because the locals start with
  \<open>flag = True\<close>: after the ten passes the counter is 4, the flag is False and the
  loop is still running, with nothing written to \<open>s.success_exercise\<close>,
  \<open>s.req_exercise\<close> or \<open>s.ex_list\<close>.
\<close>

theorem exercise_two_angles_3d_five_cycles:
  assumes "up_lb P = 150" "up_ub P = 180" "down_lb P = 10" "down_ub P = 60"
    and "\<not> left_right_differ P"
    and "between (up_lb2 P) u2 (up_ub2 P)" "between (down_lb2 P) d2 (down_ub2 P)"
    and "req_exercise s = name" "rep s = 5"
    and "\<forall>t \<in> set ticks. ext_req t = None"
  shows "(observations P c ticks = Some (five_cycles (both_sides 30 d2) (both_sides 170 u2)) \<longrightarrow>
            (case exercise_two_angles_3d P name ticks c s of
               (st, c', r) \<Rightarrow> st = Success \<and> counter r = 5 \<and> success_exercise (sett r)
                  \<and> req_exercise (sett r) = '''' \<and> ex_list (sett r) name = Some 5))
       \<and> (observations P c ticks = Some (five_cycles (both_sides 170 u2) (both_sides 30 d2)) \<longrightarrow>
            (case exercise_two_angles_3d P name ticks c s of
               (st, c', r) \<Rightarrow> st = Running \<and> counter r = 4 \<and> \<not> flag r
                  \<and> success_exercise (sett r) = success_exercise s
                  \<and> req_exercise (sett r) = name \<and> ex_list (sett r) = ex_list s))"
proof (intro conjI impI)
  let ?r = "\<lparr>flag = True, counter = 0, sett = s\<rparr>"
  assume obs: "observations P c ticks = Some (five_cycles (both_sides 30 d2) (both_sides 170 u2))"
  from two_angles_loop_track [OF assms(10) obs, of name ?r]
  obtain c' where "two_angles_loop P name ticks c ?r =
      (fst (two_angles_track P name (five_cycles (both_sides 30 d2) (both_sides 170 u2)) ?r), c',
       snd (two_angles_track P name (five_cycles (both_sides 30 d2) (both_sides 170 u2)) ?r))"
    by blast
  then show "case exercise_two_angles_3d P name ticks c s of
               (st, c', r) \<Rightarrow> st = Success \<and> counter r = 5 \<and> success_exercise (sett r)
                  \<and> req_exercise (sett r) = '''' \<and> ex_list (sett r) name = Some 5"
    by (simp add: exercise_two_angles_3d_def two_angles_track_down_first [OF assms(1-9)])
next
  let ?r = "\<lparr>flag = True, counter = 0, sett = s\<rparr>"
  assume obs: "observations P c ticks = Some (five_cycles (both_sides 170 u2) (both_sides 30 d2))"
  from two_angles_loop_track [OF assms(10) obs, of name ?r]
  obtain c' where "two_angles_loop P name ticks c ?r =
      (fst (two_angles_track P name (five_cycles (both_sides 170 u2) (both_sides 30 d2)) ?r), c',
       snd (two_angles_track P name (five_cycles (both_sides 170 u2) (both_sides 30 d2)) ?r))"
    by blast
  then show "case exercise_two_angles_3d P name ticks c s of
               (st, c', r) \<Rightarrow> st = Running \<and> counter r = 4 \<and> \<not> flag r
                  \<and> success_exercise (sett r) = success_exercise s
                  \<and> req_exercise (sett r) = name \<and> ex_list (sett r) = ex_list s"
    using assms(8)
    by (simp add: exercise_two_angles_3d_def two_angles_track_up_first [OF assms(1-9)])
qed

theorem exercise_two_angles_3d_five_cycles_witness:
  "(case exercise_two_angles_3d ball_bend_elbows ''ball_bend_elbows''
          (five_cycles (paused_pass (pi / 6)) (paused_pass (17 * pi / 18))) init_cam
          (main_settings\<lparr>req_exercise := ''ball_bend_elbows''\<rparr>) of
      (st, c', r) \<Rightarrow> st = Success \<and> counter r = 5 \<and> success_exercise (sett r)
         \<and> req_exercise (sett r) = '''' \<and> ex_list (sett r) ''ball_bend_elbows'' = Some 5)
   \<and> (case exercise_two_angles_3d ball_bend_elbows ''ball_bend_elbows''
          (five_cycles (paused_pass (17 * pi / 18)) (paused_pass (pi / 6))) init_cam
          (main_settings\<lparr>req_exercise := ''ball_bend_elbows''\<rparr>) of
      (st, c', r) \<Rightarrow> st = Running \<and> counter r = 4 \<and> \<not> flag r
         \<and> \<not> success_exercise (sett r)
         \<and> req_exercise (sett r) = ''ball_bend_elbows'' \<and> ex_list (sett r) = Map.empty)"
  using exercise_two_angles_3d_five_cycles [of ball_bend_elbows "Num 30" "Num 30"
          "main_settings\<lparr>req_exercise := ''ball_bend_elbows''\<rparr>" "''ball_bend_elbows''"
          "five_cycles (paused_pass (pi / 6)) (paused_pass (17 * pi / 18))" init_cam]
        exercise_two_angles_3d_five_cycles [of ball_bend_elbows "Num 30" "Num 30"
          "main_settings\<lparr>req_exercise := ''ball_bend_elbows''\<rparr>" "''ball_bend_elbows''"
          "five_cycles (paused_pass (17 * pi / 18)) (paused_pass (pi / 6))" init_cam]
        paused_passes_no_request [of "pi / 6" "17 * pi / 18"]
        paused_passes_no_request [of "17 * pi / 18" "pi / 6"]
        observations_down_first [of init_cam] observations_up_first [of init_cam]
  by (simp add: ball_bend_elbows_def main_settings_def)

subsection \<open>A frame without a joint that the evaluator reads\<close>

lemma calc_at_cases:
  "calc_at c joints k1 k2 k3 slot =
     (if joints k1 = None \<or> joints k2 = None \<or> joints k3 = None then Inl KeyError
      else Inr (calc_angle_3d c (the (joints k1)) (the (joints k2)) (the (joints k3)) slot))"
  by (auto simp: calc_at_def lookup_joint_def split: option.splits)

lemma measure_two_angles_missing:
  assumes "k \<in> set (joints_read P)" "joints k = None"
  shows "\<exists>c'. measure_two_angles P c joints = Inl (KeyError, c')"
proof -
  have k: "joints (''R_'' @ joint1 P) = None \<or> joints (''R_'' @ joint2 P) = None
      \<or> joints (''R_'' @ joint3 P) = None
      \<or> joints (''L_'' @ joint1 P) = None \<or> joints (''L_'' @ joint2 P) = None
      \<or> joints (''L_'' @ joint3 P) = None
      \<or> joints (''R_'' @ joint4 P) = None \<or> joints (''R_'' @ joint5 P) = None
      \<or> joints ((if use_alternate_angles P then ''L_'' else ''R_'') @ joint6 P) = None
      \<or> joints (''L_'' @ joint4 P) = None \<or> joints (''L_'' @ joint5 P) = None
      \<or> joints ((if use_alternate_angles P then ''R_'' else ''L_'') @ joint6 P) = None"
    using assms unfolding joints_read_def by (cases "use_alternate_angles P") auto
  show ?thesis
    unfolding measure_two_angles_def calc_at_cases
    using k by (cases "use_alternate_angles P") (auto split: prod.splits)
qed

text \<open>
  C2.  The claim: a pass whose frame misses a required joint is given up without a
  transition and without an error, and the loop goes on; a stream that always misses
  the joint ends only by an external stop, never by a crash.  What the code does:
  \<open>joints[key]\<close> raises KeyError for the missing joint, nothing in
  \<open>exercise_two_angles_3d\<close> (or in \<open>run\<close>) catches it, and the method is left by the
  exception at the first such frame, with no count recorded.
\<close>

theorem exercise_two_angles_3d_missing_joint_crashes:
  assumes "req_exercise s = name" and "ext_req t = None" and "frame t = Some joints"
    and "k \<in> set (joints_read P)" and "joints k = None"
  shows "fst (exercise_two_angles_3d P name (t # ts) c s) = Crashed KeyError
    \<and> snd (snd (exercise_two_angles_3d P name (t # ts) c s)) =
        \<lparr>flag = True, counter = 0, sett = s\<rparr>"
proof -
  obtain c' where
    "measure_two_angles P (if paused t then c\<lparr>previous_angles := Map.empty\<rparr> else c) joints
       = Inl (KeyError, c')"
    using measure_two_angles_missing [of k P joints] assms(4,5) by blast
  then show ?thesis using assms(1-3)
    by (simp add: exercise_two_angles_3d_def Let_def)
qed

theorem exercise_two_angles_3d_missing_joint_crashes_witness:
  "fst (exercise_two_angles_3d ball_bend_elbows ''ball_bend_elbows''
          [\<lparr>ext_req = None, paused = False,
            frame = Some [''R_shoulder'' \<mapsto> \<lparr>jx = 1, jy = 0, jz = 0\<rparr>,
                          ''R_elbow'' \<mapsto> \<lparr>jx = 0, jy = 0, jz = 0\<rparr>,
                          ''R_hip'' \<mapsto> \<lparr>jx = 1, jy = - 2, jz = 0\<rparr>,
                          ''L_shoulder'' \<mapsto> \<lparr>jx = 4, jy = 0, jz = 0\<rparr>,
                          ''L_elbow'' \<mapsto> \<lparr>jx = 5, jy = 0, jz = 0\<rparr>,
                          ''L_wrist'' \<mapsto> \<lparr>jx = 5, jy = 1, jz = 0\<rparr>,
                          ''L_hip'' \<mapsto> \<lparr>jx = 4, jy = - 2, jz = 0\<rparr>]\<rparr>]
          init_cam (main_settings\<lparr>req_exercise := ''ball_bend_elbows''\<rparr>))
     = Crashed KeyError"
  using exercise_two_angles_3d_missing_joint_crashes
    [of "main_settings\<lparr>req_exercise := ''ball_bend_elbows''\<rparr>" "''ball_bend_elbows''"
        "\<lparr>ext_req = None, paused = False,
            frame = Some [''R_shoulder'' \<mapsto> \<lparr>jx = 1, jy = 0, jz = 0\<rparr>,
                          ''R_elbow'' \<mapsto> \<lparr>jx = 0, jy = 0, jz = 0\<rparr>,
                          ''R_hip'' \<mapsto> \<lparr>jx = 1, jy = - 2, jz = 0\<rparr>,
                          ''L_shoulder'' \<mapsto> \<lparr>jx = 4, jy = 0, jz = 0\<rparr>,
                          ''L_elbow'' \<mapsto> \<lparr>jx = 5, jy = 0, jz = 0\<rparr>,
                          ''L_wrist'' \<mapsto> \<lparr>jx = 5, jy = 1, jz = 0\<rparr>,
                          ''L_hip'' \<mapsto> \<lparr>jx = 4, jy = - 2, jz = 0\<rparr>]\<rparr>"
        "[''R_shoulder'' \<mapsto> \<lparr>jx = 1, jy = 0, jz = 0\<rparr>,
          ''R_elbow'' \<mapsto> \<lparr>jx = 0, jy = 0, jz = 0\<rparr>,
          ''R_hip'' \<mapsto> \<lparr>jx = 1, jy = - 2, jz = 0\<rparr>,
          ''L_shoulder'' \<mapsto> \<lparr>jx = 4, jy = 0, jz = 0\<rparr>,
          ''L_elbow'' \<mapsto> \<lparr>jx = 5, jy = 0, jz = 0\<rparr>,
          ''L_wrist'' \<mapsto> \<lparr>jx = 5, jy = 1, jz = 0\<rparr>,
          ''L_hip'' \<mapsto> \<lparr>jx = 4, jy = - 2, jz = 0\<rparr>]"
        "''R_wrist''" ball_bend_elbows "[]" init_cam]
  by (simp add: main_settings_def joints_read_def ball_bend_elbows_def)

subsection \<open>Sampling windows of the full protocol\<close>

lemma capture_loop_passes:
  "snd (snd (capture_loop joints window samples c n)) =
     n + length (takeWhile (\<lambda>t. \<not> stop_seen t) window)"
  by (induction window arbitrary: samples c n)
     (auto split: option.splits sum.splits prod.splits)

lemma capture_loop_stopped:
  "(fst (capture_loop joints window samples c n) = None) = (\<exists>t \<in> set window. stop_seen t)"
  by (induction window arbitrary: samples c n)
     (auto split: option.splits sum.splits prod.splits)

lemma capture_angle_passes:
  "snd (snd (capture_angle joints window target c)) =
     length (takeWhile (\<lambda>t. \<not> stop_seen t) window)"
  using capture_loop_passes [of joints window "[]" c 0]
  by (auto simp: capture_angle_def split: prod.splits option.splits list.splits)

lemma capture_angle_stopped:
  "\<exists>t \<in> set window. stop_seen t \<Longrightarrow> fst (capture_angle joints window target c) = None"
  using capture_loop_stopped [of joints window "[]" c 0]
  by (auto simp: capture_angle_def split: prod.splits option.splits list.splits)






lemma takeWhile_no_stop:
  "\<forall>t \<in> set window. \<not> stop_seen t \<Longrightarrow> takeWhile (\<lambda>t. \<not> stop_seen t) window = window"
  by (induction window) auto

lemma calc_angle_3d_right_angle_fresh:
  "previous_angles c slot = None \<Longrightarrow>
   calc_angle_3d c \<lparr>jx = 1, jy = 0, jz = 0\<rparr> \<lparr>jx = 0, jy = 0, jz = 0\<rparr>
     \<lparr>jx = 0, jy = 1, jz = 0\<rparr> slot
     = (Some (Num 90), c\<lparr>previous_angles := (previous_angles c)(slot \<mapsto> Num 90)\<rparr>)"
  by (simp add: calc_angle_3d_def vec_of_def Let_def cosine_angle_perpendicular raw_angle_right
      round2_def rint_def)

text \<open>
  C6, as stated, fails: \<open>capture_angle\<close> reads \<open>s.stop_requested\<close> at the start of every
  pass of its sampling loop and returns None at once.  A window that has room for three
  passes, with the stop request seen at the second, ends after one pass; the sample of
  90 degrees taken in the first pass is dropped.
\<close>

theorem capture_angle_cut_short_counterexample:
  "capture_angle (''R_shoulder'', ''R_elbow'', ''R_wrist'')
     [\<lparr>stop_seen = False,
       skeleton_seen = Some [''R_shoulder'' \<mapsto> \<lparr>jx = 1, jy = 0, jz = 0\<rparr>,
                             ''R_elbow'' \<mapsto> \<lparr>jx = 0, jy = 0, jz = 0\<rparr>,
                             ''R_wrist'' \<mapsto> \<lparr>jx = 0, jy = 1, jz = 0\<rparr>]\<rparr>,
      \<lparr>stop_seen = True, skeleton_seen = None\<rparr>,
      \<lparr>stop_seen = False, skeleton_seen = None\<rparr>]
     ''max'' init_cam
   = (None, init_cam\<lparr>previous_angles := [''calibration'' \<mapsto> Num 90]\<rparr>, 1)"
  by (simp add: capture_angle_def calc_at_def lookup_joint_def init_cam_def
      calc_angle_3d_right_angle_fresh)

text \<open>
  C6, amended.  During full-protocol calibration a stop request takes effect at the
  measurement boundaries and at the start of every sampling pass inside a window: the
  passes of a window run up to the first one that sees the stop request, which ends the
  window at once with no result; a window in which no pass sees a stop request runs all
  its passes; a stop request seen at a measurement boundary ends the calibration there.
\<close>

theorem capture_angle_stop_granularity:
  "snd (snd (capture_angle joints window target c)) =
     length (takeWhile (\<lambda>t. \<not> stop_seen t) window)
   \<and> ((\<exists>t \<in> set window. stop_seen t) \<longrightarrow> fst (capture_angle joints window target c) = None)
   \<and> ((\<forall>t \<in> set window. \<not> stop_seen t) \<longrightarrow>
        snd (snd (capture_angle joints window target c)) = length window)
   \<and> (stop_at_start (env (m_name m)) \<longrightarrow> calibration_loop (m # ms) env rom_data c = (None, c))"
  by (auto simp: capture_angle_passes capture_angle_stopped takeWhile_no_stop)

theorem capture_angle_stop_granularity_witness:
  "snd (snd (capture_angle (''R_shoulder'', ''R_elbow'', ''R_wrist'')
     [\<lparr>stop_seen = False, skeleton_seen = None\<rparr>,
      \<lparr>stop_seen = True, skeleton_seen = None\<rparr>,
      \<lparr>stop_seen = False, skeleton_seen = None\<rparr>] ''max'' init_cam)) = 1
   \<and> fst (capture_angle (''R_shoulder'', ''R_elbow'', ''R_wrist'')
     [\<lparr>stop_seen = False, skeleton_seen = None\<rparr>,
      \<lparr>stop_seen = True, skeleton_seen = None\<rparr>,
      \<lparr>stop_seen = False, skeleton_seen = None\<rparr>] ''max'' init_cam) = None
   \<and> snd (snd (capture_angle (''R_shoulder'', ''R_elbow'', ''R_wrist'')
     [\<lparr>stop_seen = False, skeleton_seen = None\<rparr>,
      \<lparr>stop_seen = False, skeleton_seen = None\<rparr>] ''max'' init_cam)) = 2
   \<and> calibration_loop calibration_measurements
        (\<lambda>n. \<lparr>stop_at_start = True, max_window = [], min_window = []\<rparr>) Map.empty init_cam
       = (None, init_cam)"
  using capture_angle_stop_granularity [of "(''R_shoulder'', ''R_elbow'', ''R_wrist'')"
     "[\<lparr>stop_seen = False, skeleton_seen = None\<rparr>,
      \<lparr>stop_seen = True, skeleton_seen = None\<rparr>,
      \<lparr>stop_seen = False, skeleton_seen = None\<rparr>]" "''max''" init_cam
     "\<lambda>n. \<lparr>stop_at_start = True, max_window = [], min_window = []\<rparr>"
     "hd calibration_measurements" "tl calibration_measurements" Map.empty]
    capture_angle_stop_granularity [of "(''R_shoulder'', ''R_elbow'', ''R_wrist'')"
     "[\<lparr>stop_seen = False, skeleton_seen = None\<rparr>,
      \<lparr>stop_seen = False, skeleton_seen = None\<rparr>]" "''max''" init_cam
     "\<lambda>n. \<lparr>stop_at_start = True, max_window = [], min_window = []\<rparr>"
     "hd calibration_measurements" "tl calibration_measurements" Map.empty]
  by (simp add: calibration_measurements_def)

subsection \<open>Invalid samples and empty windows\<close>

lemma calibration_loop_completes:
  "\<forall>m \<in> set ms. \<not> stop_at_start (env (m_name m)) \<Longrightarrow>
   \<exists>rom' c'. calibration_loop ms env rom_data c = (Some rom', c')"
proof (induction ms arbitrary: rom_data c)
  case Nil
  then show ?case by simp
next
  case (Cons m ms)
  then show ?case
    by (cases "measure_rom m (max_window (env (m_name m))) (min_window (env (m_name m))) c")
       (auto split: option.splits)
qed

lemma key_neq_Max: "n \<noteq> n' \<Longrightarrow> n @ ''_Max'' \<noteq> n' @ ''_Max''"
  by simp






lemma run_calibration_completes:
  assumes "\<forall>m \<in> set calibration_measurements. \<not> stop_at_start (env (m_name m))"
  shows "fst (run_calibration env c s)"
proof -
  obtain rom' c' where "calibration_loop calibration_measurements env Map.empty c = (Some rom', c')"
    using calibration_loop_completes [OF assms] by blast
  then show ?thesis by (simp add: run_calibration_def)
qed



subsection \<open>Loading the simplified calibration\<close>

lemma find_append:
  "find P (ys @ zs) = (case find P ys of Some r \<Rightarrow> Some r | None \<Rightarrow> find P zs)"
  by (induction ys) auto

lemma fold_overwrite:
  "fold (\<lambda>r m. m(K r \<mapsto> V r)) xs m0 e =
     (case find (\<lambda>r. K r = e) (rev xs) of None \<Rightarrow> m0 e | Some r \<Rightarrow> Some (V r))"
  by (induction xs arbitrary: m0) (auto simp: find_append split: option.splits)

text \<open>
  C8.  The claim: after two or more dated sessions for an exercise, loading returns the
  values of the most recent session.  What the code does: it sorts the patient's rows
  with the latest date first and then lets every row overwrite the entry of its
  exercise, so the row that is written last, the one with the earliest date, stays.
  For every sheet the loaded entry of an exercise is the first row of that exercise in
  ascending order of date.  With sessions of 2025-11-01 and 2025-11-02 for
  \<open>ball_bend_elbows\<close>, loading gives the values of 2025-11-01.
\<close>

theorem load_from_excel_oldest_wins:
  "load_from_excel sheet p =
     (if filter (\<lambda>r. PatientID r = p) sheet = [] then None
      else Some (\<lambda>e. map_option
                        (\<lambda>r. \<lparr>right_max = Right_Max r, right_min = Right_Min r,
                               left_max = Left_Max r, left_min = Left_Min r\<rparr>)
                        (find (\<lambda>r. Exercise r = e)
                           (sort_key Date (filter (\<lambda>r. PatientID r = p) sheet)))))"
proof -
  have "fold (\<lambda>r calibration. calibration(Exercise r \<mapsto>
                 \<lparr>right_max = Right_Max r, right_min = Right_Min r,
                  left_max = Left_Max r, left_min = Left_Min r\<rparr>))
          (rev (sort_key Date xs)) Map.empty
        = (\<lambda>e. map_option
                  (\<lambda>r. \<lparr>right_max = Right_Max r, right_min = Right_Min r,
                         left_max = Left_Max r, left_min = Left_Min r\<rparr>)
                  (find (\<lambda>r. Exercise r = e) (sort_key Date xs)))" for xs :: "row list"
    by (rule ext) (simp add: fold_overwrite split: option.splits)
  then show ?thesis by (simp add: load_from_excel_def Let_def)
qed

theorem load_from_excel_oldest_wins_witness:
  "load_from_excel
     (save_to_excel
        (save_to_excel [] ''p1'' ''2025-11-01 10:00''
           [(''ball_bend_elbows'',
             \<lparr>right_max = 100, right_min = 20, left_max = 90, left_min = 25\<rparr>)])
        ''p1'' ''2025-11-02 10:00''
        [(''ball_bend_elbows'',
          \<lparr>right_max = 120, right_min = 15, left_max = 110, left_min = 18\<rparr>)])
     ''p1''
   = Some [''ball_bend_elbows'' \<mapsto>
             \<lparr>right_max = 100, right_min = 20, left_max = 90, left_min = 25\<rparr>]"
  using load_from_excel_oldest_wins [of "save_to_excel
        (save_to_excel [] ''p1'' ''2025-11-01 10:00''
           [(''ball_bend_elbows'',
             \<lparr>right_max = 100, right_min = 20, left_max = 90, left_min = 25\<rparr>)])
        ''p1'' ''2025-11-02 10:00''
        [(''ball_bend_elbows'',
          \<lparr>right_max = 120, right_min = 15, left_max = 110, left_min = 18\<rparr>)]" "''p1''"]
  by (auto simp: save_to_excel_def fun_eq_iff)

subsection \<open>Ranges returned by the simplified calibration\<close>

lemma two_angles_decide_cases:
  "two_angles_decide P ang r = r \<or> two_angles_decide P ang r = count_rep r
   \<or> two_angles_decide P ang r = r\<lparr>flag := False\<rparr>"
proof -
  obtain a1 a2 a3 a4 where ang: "ang = (a1, a2, a3, a4)" by (cases ang) auto
  show ?thesis
  proof (cases a1)
    case None then show ?thesis by (simp add: two_angles_decide_def ang)
  next
    case s1: (Some b1)
    show ?thesis
    proof (cases a2)
      case None then show ?thesis by (simp add: two_angles_decide_def ang s1)
    next
      case s2: (Some b2)
      show ?thesis
      proof (cases a3)
        case None then show ?thesis by (simp add: two_angles_decide_def ang s1 s2)
      next
        case s3: (Some b3)
        show ?thesis
        proof (cases a4)
          case None then show ?thesis by (simp add: two_angles_decide_def ang s1 s2 s3)
        next
          case s4: (Some b4)
          show ?thesis unfolding two_angles_decide_def ang s1 s2 s3 s4
            by (simp only: prod.case option.case split: if_split) blast
        qed
      qed
    qed
  qed
qed

lemma two_angles_decide_ranges:
  "calibration_ranges (sett (two_angles_decide P ang r)) = calibration_ranges (sett r)"
  using two_angles_decide_cases [of P ang r] by (auto simp: count_rep_def)


lemma two_angles_loop_ranges:
  "calibration_ranges (sett (snd (snd (two_angles_loop P name ticks c r)))) =
     calibration_ranges (sett r)"
proof (induction ticks arbitrary: c r)
  case Nil
  then show ?case by simp
next
  case (Cons t ts)
  define r1 where "r1 = (case ext_req t of None \<Rightarrow> r
                          | Some q \<Rightarrow> r\<lparr>sett := (sett r)\<lparr>req_exercise := q\<rparr>\<rparr>)"
  define c1 where "c1 = (if paused t then c\<lparr>previous_angles := Map.empty\<rparr> else c)"
  have r1: "calibration_ranges (sett r1) = calibration_ranges (sett r)"
    by (simp add: r1_def split: option.splits)
  show ?case
  proof (cases "req_exercise (sett r1) \<noteq> name")
    case True
    then show ?thesis using r1 by (simp add: r1_def [symmetric] record_count_def)
  next
    case False
    show ?thesis
    proof (cases "frame t")
      case None
      then show ?thesis using False r1 Cons.IH [of c1 r1]
        by (simp add: r1_def [symmetric] c1_def [symmetric] record_count_def succeed_def)
    next
      case (Some joints)
      show ?thesis
      proof (cases "measure_two_angles P c1 joints")
        case (Inl p)
        then show ?thesis using False r1 Some
          by (cases p) (simp add: r1_def [symmetric] c1_def [symmetric])
      next
        case (Inr p)
        obtain ang c2 where p: "p = (ang, c2)" by (cases p)
        have "calibration_ranges (sett (two_angles_decide P ang r1)) = calibration_ranges (sett r)"
          using r1 by (simp add: two_angles_decide_ranges)
        then show ?thesis using False Some Inr p Cons.IH [of c2 "two_angles_decide P ang r1"]
          by (simp add: r1_def [symmetric] c1_def [symmetric] record_count_def succeed_def)
      qed
    qed
  qed
qed

lemma cosines:
  "cosine_angle (1, 0, 0) (0, - 1, 0) = Num 0"
  "cosine_angle (- 1, 0, 0) (0, - 1, 0) = Num 0"
  "cosine_angle (- 1, 0, 0) (1, 0, 0) = Num (- 1)"
  "cosine_angle (1, 0, 0) (- 1, 0, 0) = Num (- 1)"
  "cosine_angle (0, 1, 0) (0, - 1, 0) = Num (- 1)"
  "cosine_angle (0, - 1, 0) (0, 1, 0) = Num (- 1)"
  by (simp_all add: cosine_angle_def norm3_def Let_def)

lemmas eval_defs = measure_two_angles_def ball_open_arms_above_head_def pose_arms_out_def
  pose_arms_up_def calc_at_def lookup_joint_def calc_angle_3d_def vec_of_def Let_def init_cam_def
  cosines raw_angle_right raw_angle_straight limit_angle_jump_def round2_def rint_def

lemma observations_out_then_up:
  "observations ball_open_arms_above_head init_cam
     [\<lparr>ext_req = None, paused = False, frame = Some pose_arms_out\<rparr>,
      \<lparr>ext_req = None, paused = False, frame = Some pose_arms_up\<rparr>,
      \<lparr>ext_req = None, paused = False, frame = Some pose_arms_up\<rparr>,
      \<lparr>ext_req = None, paused = False, frame = Some pose_arms_up\<rparr>,
      \<lparr>ext_req = None, paused = False, frame = Some pose_arms_up\<rparr>,
      \<lparr>ext_req = None, paused = False, frame = Some pose_arms_up\<rparr>,
      \<lparr>ext_req = None, paused = False, frame = Some pose_arms_up\<rparr>]
   = Some [Some (Some (Num 90), Some (Num 90), Some (Num (1799 / 10)), Some (Num (1799 / 10))),
           Some (Some (Num 100), Some (Num 100), Some (Num (1799 / 10)), Some (Num (1799 / 10))),
           Some (Some (Num 110), Some (Num 110), Some (Num (1799 / 10)), Some (Num (1799 / 10))),
           Some (Some (Num 120), Some (Num 120), Some (Num (1799 / 10)), Some (Num (1799 / 10))),
           Some (Some (Num 130), Some (Num 130), Some (Num (1799 / 10)), Some (Num (1799 / 10))),
           Some (Some (Num 140), Some (Num 140), Some (Num (1799 / 10)), Some (Num (1799 / 10))),
           Some (Some (Num 150), Some (Num 150), Some (Num (1799 / 10)), Some (Num (1799 / 10)))]"
  by (simp add: eval_defs)

text \<open>
  C9.  The claim: the ranges returned for an exercise are the running maximum and
  minimum of both sides' primary angle observed during the repetition.  What the code
  does: \<open>calibrate_one_exercise\<close> sets \<open>s.calibration_mode\<close> and the starting ranges
  (0, 180, 0, 180), but \<open>exercise_two_angles_3d\<close> never reads the flag and never writes
  \<open>s.calibration_ranges\<close>; the call returns the starting ranges whenever a repetition
  was counted, and None otherwise.  In the run below the primary angle of both sides
  is measured as 90, 100, ..., 150 and the call returns (0, 180, 0, 180).
\<close>

theorem calibrate_one_exercise_returns_initial_ranges:
  "fst (calibrate_one_exercise P name ticks c s) =
     (if 1 \<le> patient_repetitions_counting_in_exercise (snd (snd (calibrate_one_exercise P name ticks c s)))
      then Some \<lparr>right_max = 0, right_min = 180, left_max = 0, left_min = 180\<rparr>
      else None)"
proof -
  define s1 where "s1 = s\<lparr>req_exercise := name,
                 patient_repetitions_counting_in_exercise := 0,
                 calibration_mode := True,
                 calibration_ranges :=
                   \<lparr>right_max = 0, right_min = 180, left_max = 0, left_min = 180\<rparr>\<rparr>"
  obtain st c' r where run: "exercise_two_angles_3d P name ticks c s1 = (st, c', r)"
    by (cases "exercise_two_angles_3d P name ticks c s1") auto
  have "calibration_ranges (sett r) = \<lparr>right_max = 0, right_min = 180, left_max = 0, left_min = 180\<rparr>"
    using two_angles_loop_ranges [of P name ticks c "\<lparr>flag = True, counter = 0, sett = s1\<rparr>"] run
    by (simp add: exercise_two_angles_3d_def s1_def)
  then show ?thesis using run
    by (simp add: calibrate_one_exercise_def Let_def s1_def [symmetric])
qed

theorem calibrate_one_exercise_returns_initial_ranges_witness:
  "fst (calibrate_one_exercise ball_open_arms_above_head ''ball_open_arms_above_head''
     [\<lparr>ext_req = None, paused = False, frame = Some pose_arms_out\<rparr>,
      \<lparr>ext_req = None, paused = False, frame = Some pose_arms_up\<rparr>,
      \<lparr>ext_req = None, paused = False, frame = Some pose_arms_up\<rparr>,
      \<lparr>ext_req = None, paused = False, frame = Some pose_arms_up\<rparr>,
      \<lparr>ext_req = None, paused = False, frame = Some pose_arms_up\<rparr>,
      \<lparr>ext_req = None, paused = False, frame = Some pose_arms_up\<rparr>,
      \<lparr>ext_req = None, paused = False, frame = Some pose_arms_up\<rparr>]
     init_cam main_settings)
   = Some \<lparr>right_max = 0, right_min = 180, left_max = 0, left_min = 180\<rparr>"
  using calibrate_one_exercise_returns_initial_ranges [of ball_open_arms_above_head "''ball_open_arms_above_head''"
     "[\<lparr>ext_req = None, paused = False, frame = Some pose_arms_out\<rparr>,
      \<lparr>ext_req = None, paused = False, frame = Some pose_arms_up\<rparr>,
      \<lparr>ext_req = None, paused = False, frame = Some pose_arms_up\<rparr>,
      \<lparr>ext_req = None, paused = False, frame = Some pose_arms_up\<rparr>,
      \<lparr>ext_req = None, paused = False, frame = Some pose_arms_up\<rparr>,
      \<lparr>ext_req = None, paused = False, frame = Some pose_arms_up\<rparr>,
      \<lparr>ext_req = None, paused = False, frame = Some pose_arms_up\<rparr>]" init_cam main_settings]
  by (simp add: calibrate_one_exercise_def exercise_two_angles_3d_def main_settings_def
      two_angles_decide_def count_rep_def eval_defs)

subsection \<open>The smoothing slot of the calibration\<close>


























end
